theory Spec2Isabelle
  imports Main "HOL-Library.Sublist"
begin

section \<open>The shared token cache credential\<close>

text \<open>
  A shallow embedding of \<^verbatim>\<open>azure/identity/_credentials/shared_cache.py\<close>: the method
  \<^verbatim>\<open>_SharedTokenCacheCredential.get_token\<close> and the public wrapper
  \<^verbatim>\<open>SharedTokenCacheCredential.get_token\<close>. The methods get_token calls are inherited
  from \<^verbatim>\<open>SharedTokenCacheBase\<close> or belong to the client object; neither file is among
  the sources, so get_token is embedded over a record of collaborators, and every call it
  makes is written to a log together with what the call returned.
\<close>

subsection \<open>Data\<close>

text \<open>Python exceptions as values. \<open>Exception\<close> carries a class name and a message and
  stands for every exception class the file does not name.\<close>

datatype exn =
    ValueError string
  | CredentialUnavailableError string
  | ClientAuthenticationError string
  | Exception string string

text \<open>\<^verbatim>\<open>azure.core.credentials.AccessToken\<close>, a named tuple of the token and its expiry
  (seconds since the epoch).\<close>

datatype access_token = AccessToken string int

text \<open>An account is a cache item, a dictionary from strings to strings;
  \<^verbatim>\<open>account.get(key)\<close> is \<open>map_of account key\<close>.\<close>

type_synonym account = "(string \<times> string) list"

type_synonym kwargs = "(string \<times> string) list"

text \<open>Modelled from the spec: the token cache of section 3, whose class is not among the
  sources. An access token has a value, an expiry, scopes and an account; a refresh token
  has a value and an account; the cache holds accounts and their tokens. Accounts are tied
  to tokens by their \<^verbatim>\<open>home_account_id\<close>.\<close>

record cached_access_token =
  at_secret :: string
  at_expires_on :: int
  at_scopes :: "string list"
  at_home_account_id :: string

record cached_refresh_token =
  rt_secret :: string
  rt_home_account_id :: string

record token_cache =
  accounts :: "account list"
  access_tokens :: "cached_access_token list"
  refresh_tokens :: "cached_refresh_token list"

text \<open>The state a call can read or change: the attributes of the credential object that
  get_token reads (\<^verbatim>\<open>self._client_initialized\<close>, \<^verbatim>\<open>self._cache\<close>,
  \<^verbatim>\<open>self._cae_cache\<close>, \<^verbatim>\<open>self._username\<close>, \<^verbatim>\<open>self._tenant_id\<close>), and, for the
  collaborators, the two partitions of the persistent store and the clock.\<close>

record world =
  self_client_initialized :: bool
  self_cache :: "token_cache option"
  self_cae_cache :: "token_cache option"
  self_username :: "string option"
  self_tenant_id :: "string option"
  store_std :: "token_cache option"
  store_cae :: "token_cache option"
  now :: int

subsection \<open>Collaborators and the call log\<close>

text \<open>The methods of \<^verbatim>\<open>SharedTokenCacheBase\<close> that get_token calls. Each may change the
  state and may raise.\<close>

record base =
  initialize_client :: "world \<Rightarrow> (exn + unit) \<times> world"
  initialize_cache :: "bool \<Rightarrow> world \<Rightarrow> (exn + token_cache option) \<times> world"
  get_account ::
    "string option \<Rightarrow> string option \<Rightarrow> bool \<Rightarrow> world \<Rightarrow> (exn + account) \<times> world"
  get_cached_access_token ::
    "string list \<Rightarrow> account \<Rightarrow> bool \<Rightarrow> world \<Rightarrow> (exn + access_token option) \<times> world"
  get_refresh_tokens :: "account \<Rightarrow> bool \<Rightarrow> world \<Rightarrow> (exn + string list) \<times> world"

text \<open>The client object \<^verbatim>\<open>self._client\<close>: the token exchange, with the arguments
  \<^verbatim>\<open>scopes, refresh_token, claims=, tenant_id=, **kwargs\<close>.\<close>

record client =
  obtain_token_by_refresh_token ::
    "string list \<Rightarrow> string \<Rightarrow> string option \<Rightarrow> string option \<Rightarrow> kwargs \<Rightarrow> world
      \<Rightarrow> (exn + access_token) \<times> world"

text \<open>One entry of the log for each call get_token makes: the callee, the arguments it was
  given and what it returned or raised.\<close>

datatype call =
    Initialize_client "exn + unit"
  | Initialize_cache bool "exn + token_cache option"
  | Get_account "string option" "string option" bool "exn + account"
  | Get_cached_access_token "string list" account bool "exn + access_token option"
  | Get_refresh_tokens account bool "exn + string list"
  | Obtain_token_by_refresh_token
      "string list" string "string option" "string option" kwargs "exn + access_token"
  | Silent_get_token
      "string list" "string option" "string option" bool kwargs "exn + access_token"

fun is_exchange :: "call \<Rightarrow> bool" where
  "is_exchange (Obtain_token_by_refresh_token _ _ _ _ _ _) = True"
| "is_exchange _ = False"

text \<open>The flag a call that consults a cache was given.\<close>

fun cache_flag :: "call \<Rightarrow> bool option" where
  "cache_flag (Initialize_cache b _) = Some b"
| "cache_flag (Get_account _ _ b _) = Some b"
| "cache_flag (Get_cached_access_token _ _ b _) = Some b"
| "cache_flag (Get_refresh_tokens _ b _) = Some b"
| "cache_flag _ = None"

text \<open>Calling a collaborator: run it on the state and append the call, with its outcome,
  to the log.\<close>

definition invoke ::
  "('r \<Rightarrow> call) \<Rightarrow> (world \<Rightarrow> 'r \<times> world) \<Rightarrow> world \<times> call list \<Rightarrow> 'r \<times> world \<times> call list" where
  "invoke ev f st = (case f (fst st) of (r, w) \<Rightarrow> (r, w, snd st @ [ev r]))"

subsection \<open>The message of the last error\<close>

text \<open>Modelled from the spec: the constant \<^verbatim>\<open>NO_TOKEN\<close> is imported from a module that is
  not among the sources; section 4.1 step 6 gives the message as "no usable refresh token
  for account <identity>", with one placeholder for the identity.\<close>

definition NO_TOKEN :: string where
  "NO_TOKEN = ''no usable refresh token for account {}''"

text \<open>\<^verbatim>\<open>template.format(arg)\<close> for a template with one placeholder \<^verbatim>\<open>{}\<close>: the first
  placeholder is replaced by the argument.\<close>

fun format1 :: "string \<Rightarrow> string \<Rightarrow> string" where
  "format1 [] a = []"
| "format1 [c] a = [c]"
| "format1 (c # d # cs) a =
     (if c = CHR ''{'' \<and> d = CHR ''}'' then a @ cs else c # format1 (d # cs) a)"

text \<open>\<^verbatim>\<open>str\<close> of the value \<^verbatim>\<open>dict.get\<close> returns: a missing key gives \<^verbatim>\<open>None\<close>.\<close>

definition py_str :: "string option \<Rightarrow> string" where
  "py_str v = (case v of None \<Rightarrow> ''None'' | Some s \<Rightarrow> s)"

subsection \<open>get_token\<close>

text \<open>Lines 140 to 145: the loop over the refresh tokens. Its body returns in the first
  iteration, whatever the exchange gives; \<open>None\<close> is the loop ending without a return.\<close>

fun refresh_loop ::
  "client \<Rightarrow> string list \<Rightarrow> string option \<Rightarrow> string option \<Rightarrow> kwargs \<Rightarrow> string list
    \<Rightarrow> world \<times> call list \<Rightarrow> ((exn + access_token) \<times> world \<times> call list) option" where
  "refresh_loop cl scopes claims tenant_id kwargs [] st = None"
| "refresh_loop cl scopes claims tenant_id kwargs (refresh_token # rest) st =
     Some (invoke (Obtain_token_by_refresh_token scopes refresh_token claims tenant_id kwargs)
             (obtain_token_by_refresh_token cl scopes refresh_token claims tenant_id kwargs) st)"

text \<open>Lines 109 to 147. The result is what get_token returns or raises, the state it
  leaves and the log of its calls. No call is inside a \<^verbatim>\<open>try\<close>, so an exception of a
  collaborator ends get_token with that exception. A cache object is true in a condition
  and \<^verbatim>\<open>None\<close> is false; so is an access token, a non-empty tuple.\<close>

definition get_token ::
  "base \<Rightarrow> client \<Rightarrow> string list \<Rightarrow> string option \<Rightarrow> string option \<Rightarrow> bool \<Rightarrow> kwargs
    \<Rightarrow> world \<Rightarrow> (exn + access_token) \<times> world \<times> call list" where
  "get_token b cl scopes claims tenant_id enable_cae kwargs self =
    (if scopes = [] then (Inl (ValueError '''get_token' requires at least one scope''), self, [])
     else
      case (if \<not> self_client_initialized self
            then invoke Initialize_client (initialize_client b) (self, [])
            else (Inr (), self, [])) of
        (Inl e, st1) \<Rightarrow> (Inl e, st1)
      | (Inr _, st1) \<Rightarrow>
         (let is_cae = enable_cae;
              token_cache = (if is_cae then self_cae_cache (fst st1) else self_cache (fst st1))
          in
            case (if token_cache = None
                  then invoke (Initialize_cache is_cae) (initialize_cache b is_cae) st1
                  else (Inr token_cache, st1)) of
              (Inl e, st2) \<Rightarrow> (Inl e, st2)
            | (Inr None, st2) \<Rightarrow>
                (Inl (CredentialUnavailableError ''Shared token cache unavailable''), st2)
            | (Inr (Some _), st2) \<Rightarrow>
               (case invoke (Get_account (self_username (fst st2)) (self_tenant_id (fst st2)) is_cae)
                       (get_account b (self_username (fst st2)) (self_tenant_id (fst st2)) is_cae)
                       st2 of
                  (Inl e, st3) \<Rightarrow> (Inl e, st3)
                | (Inr account, st3) \<Rightarrow>
                   (case invoke (Get_cached_access_token scopes account is_cae)
                           (get_cached_access_token b scopes account is_cae) st3 of
                      (Inl e, st4) \<Rightarrow> (Inl e, st4)
                    | (Inr (Some token), st4) \<Rightarrow> (Inr token, st4)
                    | (Inr None, st4) \<Rightarrow>
                       (case invoke (Get_refresh_tokens account is_cae)
                               (get_refresh_tokens b account is_cae) st4 of
                          (Inl e, st5) \<Rightarrow> (Inl e, st5)
                        | (Inr tokens, st5) \<Rightarrow>
                           (case refresh_loop cl scopes claims tenant_id kwargs tokens st5 of
                              Some r \<Rightarrow> r
                            | None \<Rightarrow>
                               (Inl (CredentialUnavailableError
                                       (format1 NO_TOKEN (py_str (map_of account ''username'')))),
                                st5)))))))"

text \<open>The three parts of a result.\<close>

definition outcome :: "'a \<times> world \<times> call list \<Rightarrow> 'a" where
  "outcome r = fst r"

definition world_after :: "'a \<times> world \<times> call list \<Rightarrow> world" where
  "world_after r = fst (snd r)"

definition calls :: "'a \<times> world \<times> call list \<Rightarrow> call list" where
  "calls r = snd (snd r)"

subsection \<open>The public credential\<close>

text \<open>Lines 37 to 41: \<^verbatim>\<open>__init__\<close> stores in \<^verbatim>\<open>self._credential\<close> a
  \<^verbatim>\<open>SilentAuthenticationCredential\<close> when the keyword arguments hold an authentication
  record, and the internal \<^verbatim>\<open>_SharedTokenCacheCredential\<close> otherwise.\<close>

datatype credential = SilentAuthenticationCredential | Internal_SharedTokenCacheCredential

definition new_credential :: "kwargs \<Rightarrow> credential" where
  "new_credential kwargs =
     (if ''authentication_record'' \<in> fst ` set kwargs then SilentAuthenticationCredential
      else Internal_SharedTokenCacheCredential)"

text \<open>Lines 54 to 85: the public get_token hands its arguments, as they are, to the
  get_token of \<^verbatim>\<open>self._credential\<close>. The class of the silent credential is not among the
  sources; its get_token is the parameter \<open>silent\<close>. The decorator \<^verbatim>\<open>log_get_token\<close>
  is taken to pass arguments, results and exceptions through.\<close>

definition SharedTokenCacheCredential_get_token ::
  "credential
    \<Rightarrow> (string list \<Rightarrow> string option \<Rightarrow> string option \<Rightarrow> bool \<Rightarrow> kwargs \<Rightarrow> world
          \<Rightarrow> (exn + access_token) \<times> world)
    \<Rightarrow> base \<Rightarrow> client \<Rightarrow> string list \<Rightarrow> string option \<Rightarrow> string option \<Rightarrow> bool \<Rightarrow> kwargs
    \<Rightarrow> world \<Rightarrow> (exn + access_token) \<times> world \<times> call list" where
  "SharedTokenCacheCredential_get_token credential silent b cl scopes claims tenant_id enable_cae
      kwargs self =
     (case credential of
        SilentAuthenticationCredential \<Rightarrow>
          invoke (Silent_get_token scopes claims tenant_id enable_cae kwargs)
            (silent scopes claims tenant_id enable_cae kwargs) (self, [])
      | Internal_SharedTokenCacheCredential \<Rightarrow>
          get_token b cl scopes claims tenant_id enable_cae kwargs self)"

section \<open>The collaborators, modelled from the spec\<close>

text \<open>The cache a flag selects, in memory and in the persistent store.\<close>

definition selected_cache :: "bool \<Rightarrow> world \<Rightarrow> token_cache option" where
  "selected_cache is_cae w = (if is_cae then self_cae_cache w else self_cache w)"

definition persistent_store :: "bool \<Rightarrow> world \<Rightarrow> token_cache option" where
  "persistent_store is_cae w = (if is_cae then store_cae w else store_std w)"

text \<open>Modelled from the spec: \<^verbatim>\<open>_initialize_client\<close> is a method of the base class, which
  is not among the sources. The spec says only that the client is set up before use; the
  model sets the flag get_token tests.\<close>

definition initialize_client_spec :: "world \<Rightarrow> (exn + unit) \<times> world" where
  "initialize_client_spec w = (Inr (), w\<lparr>self_client_initialized := True\<rparr>)"

text \<open>Modelled from the spec: \<^verbatim>\<open>_initialize_cache\<close> is a method of the base class, which
  is not among the sources. Section 4.1 step 2 and section 9: a cache that is not in memory is
  loaded from the persistent store, which is only read, and kept for later calls; an absent or
  unreadable store gives no cache.\<close>

definition initialize_cache_spec :: "bool \<Rightarrow> world \<Rightarrow> (exn + token_cache option) \<times> world" where
  "initialize_cache_spec is_cae w =
     (case selected_cache is_cae w of
        Some tc \<Rightarrow> (Inr (Some tc), w)
      | None \<Rightarrow>
          (Inr (persistent_store is_cae w),
           if is_cae then w\<lparr>self_cae_cache := store_cae w\<rparr> else w\<lparr>self_cache := store_std w\<rparr>))"

text \<open>Modelled from the spec: \<^verbatim>\<open>_get_account\<close> is a method of the base class, which is not
  among the sources. Section 4.1 step 3: the accounts of the selected cache that match the
  configured username and tenant; none is an error, more than one is an error, exactly one is
  the account. A selector that is not configured matches every account.\<close>

definition matches_selectors :: "string option \<Rightarrow> string option \<Rightarrow> account \<Rightarrow> bool" where
  "matches_selectors username tenant_id account =
     ((username = None \<or> map_of account ''username'' = username)
      \<and> (tenant_id = None \<or> map_of account ''tenant_id'' = tenant_id))"

definition find_account ::
  "string option \<Rightarrow> string option \<Rightarrow> token_cache option \<Rightarrow> exn + account" where
  "find_account username tenant_id cache =
     (case filter (matches_selectors username tenant_id)
             (case cache of None \<Rightarrow> [] | Some tc \<Rightarrow> accounts tc) of
        [] \<Rightarrow> Inl (CredentialUnavailableError ''no account found'')
      | [account] \<Rightarrow> Inr account
      | _ # _ # _ \<Rightarrow>
          Inl (CredentialUnavailableError ''multiple accounts found; specify username/tenant''))"

definition get_account_spec ::
  "string option \<Rightarrow> string option \<Rightarrow> bool \<Rightarrow> world \<Rightarrow> (exn + account) \<times> world" where
  "get_account_spec username tenant_id is_cae w =
     (find_account username tenant_id (selected_cache is_cae w), w)"

text \<open>Modelled from the spec: \<^verbatim>\<open>_get_cached_access_token\<close> is a method of the base class,
  which is not among the sources. Section 4.1 step 4: the first access token of the account in
  the selected cache whose scopes include the requested ones and whose expiry is later than
  the current time plus the clock-skew margin \<open>skew\<close> (the spec gives no value for it).
  The call at line 136 passes the scopes, the account and the flag, and no claims: the lookup
  cannot compare claims.\<close>

definition usable :: "int \<Rightarrow> int \<Rightarrow> string list \<Rightarrow> account \<Rightarrow> cached_access_token \<Rightarrow> bool" where
  "usable skew time scopes account t =
     (map_of account ''home_account_id'' = Some (at_home_account_id t)
      \<and> set scopes \<subseteq> set (at_scopes t)
      \<and> time + skew < at_expires_on t)"

definition find_access_token ::
  "int \<Rightarrow> int \<Rightarrow> string list \<Rightarrow> account \<Rightarrow> token_cache option \<Rightarrow> access_token option" where
  "find_access_token skew time scopes account cache =
     (case cache of
        None \<Rightarrow> None
      | Some tc \<Rightarrow>
          (case find (usable skew time scopes account) (access_tokens tc) of
             None \<Rightarrow> None
           | Some t \<Rightarrow> Some (AccessToken (at_secret t) (at_expires_on t))))"

definition get_cached_access_token_spec ::
  "int \<Rightarrow> string list \<Rightarrow> account \<Rightarrow> bool \<Rightarrow> world \<Rightarrow> (exn + access_token option) \<times> world" where
  "get_cached_access_token_spec skew scopes account is_cae w =
     (Inr (find_access_token skew (now w) scopes account (selected_cache is_cae w)), w)"

text \<open>Modelled from the spec: \<^verbatim>\<open>_get_refresh_tokens\<close> is a method of the base class, which
  is not among the sources. Section 4.1 step 5: the refresh tokens of the account in the
  selected cache, in the order of the cache.\<close>

definition refresh_tokens_of :: "account \<Rightarrow> token_cache option \<Rightarrow> string list" where
  "refresh_tokens_of account cache =
     (case cache of
        None \<Rightarrow> []
      | Some tc \<Rightarrow>
          map rt_secret
            (filter (\<lambda>r. map_of account ''home_account_id'' = Some (rt_home_account_id r))
               (refresh_tokens tc)))"

definition get_refresh_tokens_spec ::
  "account \<Rightarrow> bool \<Rightarrow> world \<Rightarrow> (exn + string list) \<times> world" where
  "get_refresh_tokens_spec account is_cae w =
     (Inr (refresh_tokens_of account (selected_cache is_cae w)), w)"

definition spec_base :: "int \<Rightarrow> base" where
  "spec_base skew =
     \<lparr>initialize_client = initialize_client_spec,
      initialize_cache = initialize_cache_spec,
      get_account = get_account_spec,
      get_cached_access_token = get_cached_access_token_spec skew,
      get_refresh_tokens = get_refresh_tokens_spec\<rparr>"

text \<open>Modelled from the spec: the class of the client is not among the sources. Section 6
  gives the exchange as \<^verbatim>\<open>exchange(scopes, refresh_token, claims, tenant_hint)\<close>, a call that
  returns an access token or fails; here it is a function of its arguments that leaves the
  state alone.\<close>

definition spec_client ::
  "(string list \<Rightarrow> string \<Rightarrow> string option \<Rightarrow> string option \<Rightarrow> kwargs \<Rightarrow> exn + access_token)
    \<Rightarrow> client" where
  "spec_client exchange =
     \<lparr>obtain_token_by_refresh_token =
        (\<lambda>scopes refresh_token claims tenant_id kwargs w.
           (exchange scopes refresh_token claims tenant_id kwargs, w))\<rparr>"

text \<open>What a call can find in the cache a flag selects: the cache in memory or, when none
  is loaded, the one in the persistent store.\<close>

definition available :: "bool \<Rightarrow> world \<Rightarrow> token_cache option" where
  "available is_cae w =
     (case selected_cache is_cae w of Some tc \<Rightarrow> Some tc | None \<Rightarrow> persistent_store is_cae w)"

text \<open>The state after lines 120 to 128 with the collaborators above: the client is
  initialised and the selected cache is loaded.\<close>

definition loaded :: "bool \<Rightarrow> world \<Rightarrow> world" where
  "loaded is_cae w =
     (let w1 = (if self_client_initialized w then w else w\<lparr>self_client_initialized := True\<rparr>)
      in if selected_cache is_cae w1 = None
         then (if is_cae then w1\<lparr>self_cae_cache := store_cae w1\<rparr>
               else w1\<lparr>self_cache := store_std w1\<rparr>)
         else w1)"


section \<open>A sample cache\<close>

text \<open>The scenario of section 8 of the spec: the cache holds the account of
  \<^verbatim>\<open>alice@example.com\<close> with one access token, which expires at time 5000, and refresh
  tokens. A second account, an exchange and a starting state complete the sample.\<close>

definition alice :: account where
  "alice = [(''username'', ''alice@example.com''), (''tenant_id'', ''contoso''),
            (''home_account_id'', ''alice.contoso'')]"

definition bob :: account where
  "bob = [(''username'', ''bob@example.com''), (''tenant_id'', ''contoso''),
          (''home_account_id'', ''bob.contoso'')]"

definition example_cache :: token_cache where
  "example_cache =
     \<lparr>accounts = [alice],
      access_tokens =
        [\<lparr>at_secret = ''cached-token'', at_expires_on = 5000,
          at_scopes = [''https://service/.default''], at_home_account_id = ''alice.contoso''\<rparr>],
      refresh_tokens =
        [\<lparr>rt_secret = ''refresh-1'', rt_home_account_id = ''alice.contoso''\<rparr>,
         \<lparr>rt_secret = ''refresh-2'', rt_home_account_id = ''alice.contoso''\<rparr>]\<rparr>"

text \<open>A fresh credential with no selector: nothing is loaded, the standard partition of the
  store holds \<open>std\<close>, the CAE partition is absent.\<close>

definition example_world :: "token_cache option \<Rightarrow> int \<Rightarrow> world" where
  "example_world std time =
     \<lparr>self_client_initialized = False, self_cache = None, self_cae_cache = None,
      self_username = None, self_tenant_id = None,
      store_std = std, store_cae = None, now = time\<rparr>"

text \<open>An exchange that names the tenant in the token it issues and rejects the tenant
  \<^verbatim>\<open>revoked\<close>.\<close>

definition example_exchange ::
  "string list \<Rightarrow> string \<Rightarrow> string option \<Rightarrow> string option \<Rightarrow> kwargs \<Rightarrow> exn + access_token" where
  "example_exchange scopes refresh_token claims tenant_id kwargs =
     (if tenant_id = Some ''revoked'' then Inl (ClientAuthenticationError ''invalid_grant'')
      else Inr (AccessToken (''issued-for-'' @ py_str tenant_id) 9000))"

text \<open>A client that keeps what it obtains: its exchange issues a token and stores it, for
  the scopes asked, in the standard cache held in memory.\<close>

definition caching_client :: client where
  "caching_client =
     \<lparr>obtain_token_by_refresh_token =
        (\<lambda>scopes refresh_token claims tenant_id kwargs w.
           (Inr (AccessToken ''issued'' 9000),
            w\<lparr>self_cache :=
                 map_option
                   (\<lambda>tc. tc\<lparr>access_tokens :=
                              \<lparr>at_secret = ''issued'', at_expires_on = 9000, at_scopes = scopes,
                               at_home_account_id = ''alice.contoso''\<rparr> # access_tokens tc\<rparr>)
                   (self_cache w)\<rparr>))\<rparr>"

section \<open>The paths of get_token\<close>

text \<open>The calls get_token makes before it looks for the account, when they succeed: the
  initialisation of the client and a load of the selected cache that gives a cache.\<close>

fun setup_call :: "bool \<Rightarrow> call \<Rightarrow> bool" where
  "setup_call flag (Initialize_client (Inr _)) = True"
| "setup_call flag (Initialize_cache f (Inr (Some _))) = (f = flag)"
| "setup_call flag _ = False"

text \<open>Lines 134 to 147 on their own, as get_token runs them once the client and the cache are
  set up: the same text as in \<open>get_token\<close>, used to follow it path by path.\<close>

definition from_account ::
  "base \<Rightarrow> client \<Rightarrow> string list \<Rightarrow> string option \<Rightarrow> string option \<Rightarrow> bool \<Rightarrow> kwargs
    \<Rightarrow> world \<times> call list \<Rightarrow> (exn + access_token) \<times> world \<times> call list" where
  "from_account b cl scopes claims tenant_id is_cae kwargs st2 =
     (case invoke (Get_account (self_username (fst st2)) (self_tenant_id (fst st2)) is_cae)
             (get_account b (self_username (fst st2)) (self_tenant_id (fst st2)) is_cae)
             st2 of
        (Inl e, st3) \<Rightarrow> (Inl e, st3)
      | (Inr account, st3) \<Rightarrow>
         (case invoke (Get_cached_access_token scopes account is_cae)
                 (get_cached_access_token b scopes account is_cae) st3 of
            (Inl e, st4) \<Rightarrow> (Inl e, st4)
          | (Inr (Some token), st4) \<Rightarrow> (Inr token, st4)
          | (Inr None, st4) \<Rightarrow>
             (case invoke (Get_refresh_tokens account is_cae)
                     (get_refresh_tokens b account is_cae) st4 of
                (Inl e, st5) \<Rightarrow> (Inl e, st5)
              | (Inr tokens, st5) \<Rightarrow>
                 (case refresh_loop cl scopes claims tenant_id kwargs tokens st5 of
                    Some r \<Rightarrow> r
                  | None \<Rightarrow>
                     (Inl (CredentialUnavailableError
                             (format1 NO_TOKEN (py_str (map_of account ''username'')))),
                      st5)))))"

section \<open>Lemmas\<close>

subsection \<open>Every path of get_token, with its log\<close>

lemma from_account_paths [case_names account_raises lookup_raises cached tokens_raise no_refresh_token exchange]:
  fixes st2 :: "world \<times> call list" and b :: base and cl :: client
    and scopes :: "string list" and claims tenant_id :: "string option" and is_cae :: bool
    and kwargs :: kwargs
  defines "u \<equiv> self_username (fst st2)" and "t \<equiv> self_tenant_id (fst st2)"
  defines "R \<equiv> from_account b cl scopes claims tenant_id is_cae kwargs st2"
  obtains
    e w where "R = (Inl e, w, snd st2 @ [Get_account u t is_cae (Inl e)])"
  | account e w where
      "R = (Inl e, w, snd st2 @ [Get_account u t is_cae (Inr account),
              Get_cached_access_token scopes account is_cae (Inl e)])"
  | account tok w where
      "R = (Inr tok, w, snd st2 @ [Get_account u t is_cae (Inr account),
              Get_cached_access_token scopes account is_cae (Inr (Some tok))])"
  | account e w where
      "R = (Inl e, w, snd st2 @ [Get_account u t is_cae (Inr account),
              Get_cached_access_token scopes account is_cae (Inr None),
              Get_refresh_tokens account is_cae (Inl e)])"
  | account w where
      "R = (Inl (CredentialUnavailableError (format1 NO_TOKEN (py_str (map_of account ''username'')))),
            w, snd st2 @ [Get_account u t is_cae (Inr account),
              Get_cached_access_token scopes account is_cae (Inr None),
              Get_refresh_tokens account is_cae (Inr [])])"
  | account refresh_token rest r w where
      "R = (r, w, snd st2 @ [Get_account u t is_cae (Inr account),
              Get_cached_access_token scopes account is_cae (Inr None),
              Get_refresh_tokens account is_cae (Inr (refresh_token # rest)),
              Obtain_token_by_refresh_token scopes refresh_token claims tenant_id kwargs r])"
proof -
  obtain r3 w3 where s3: "get_account b u t is_cae (fst st2) = (r3, w3)"
    by (cases "get_account b u t is_cae (fst st2)")
  show thesis
  proof (cases r3)
    case (Inl e)
    with s3 have "R = (Inl e, w3, snd st2 @ [Get_account u t is_cae (Inl e)])"
      by (simp add: R_def from_account_def invoke_def u_def t_def)
    then show thesis by (rule that(1))
  next
    case (Inr account)
    note r3 = this
    obtain r4 w4 where s4: "get_cached_access_token b scopes account is_cae w3 = (r4, w4)"
      by (cases "get_cached_access_token b scopes account is_cae w3")
    show thesis
    proof (cases r4)
      case (Inl e)
      with s3 r3 s4 have "R = (Inl e, w4, snd st2 @ [Get_account u t is_cae (Inr account),
              Get_cached_access_token scopes account is_cae (Inl e)])"
        by (simp add: R_def from_account_def invoke_def u_def t_def)
      then show thesis by (rule that(2))
    next
      case (Inr found)
      note r4 = this
      show thesis
      proof (cases found)
        case (Some tok)
        with s3 r3 s4 r4 have "R = (Inr tok, w4, snd st2 @ [Get_account u t is_cae (Inr account),
              Get_cached_access_token scopes account is_cae (Inr (Some tok))])"
          by (simp add: R_def from_account_def invoke_def u_def t_def)
        then show thesis by (rule that(3))
      next
        case None
        note found = this
        obtain r5 w5 where s5: "get_refresh_tokens b account is_cae w4 = (r5, w5)"
          by (cases "get_refresh_tokens b account is_cae w4")
        show thesis
        proof (cases r5)
          case (Inl e)
          with s3 r3 s4 r4 found s5 have "R = (Inl e, w5, snd st2 @ [Get_account u t is_cae (Inr account),
              Get_cached_access_token scopes account is_cae (Inr None),
              Get_refresh_tokens account is_cae (Inl e)])"
            by (simp add: R_def from_account_def invoke_def u_def t_def)
          then show thesis by (rule that(4))
        next
          case (Inr tokens)
          note r5 = this
          show thesis
          proof (cases tokens)
            case Nil
            with s3 r3 s4 r4 found s5 r5 have "R = (Inl (CredentialUnavailableError (format1 NO_TOKEN (py_str (map_of account ''username'')))),
                w5, snd st2 @ [Get_account u t is_cae (Inr account),
                Get_cached_access_token scopes account is_cae (Inr None),
                Get_refresh_tokens account is_cae (Inr [])])"
              by (simp add: R_def from_account_def invoke_def u_def t_def)
            then show thesis by (rule that(5))
          next
            case (Cons refresh_token rest)
            note tokens = this
            obtain r6 w6 where s6:
              "obtain_token_by_refresh_token cl scopes refresh_token claims tenant_id kwargs w5 = (r6, w6)"
              by (cases "obtain_token_by_refresh_token cl scopes refresh_token claims tenant_id kwargs w5")
            with s3 r3 s4 r4 found s5 r5 tokens have "R = (r6, w6, snd st2 @ [Get_account u t is_cae (Inr account),
              Get_cached_access_token scopes account is_cae (Inr None),
              Get_refresh_tokens account is_cae (Inr (refresh_token # rest)),
              Obtain_token_by_refresh_token scopes refresh_token claims tenant_id kwargs r6])"
              by (simp add: R_def from_account_def invoke_def u_def t_def)
            then show thesis by (rule that(6))
          qed
        qed
      qed
    qed
  qed
qed

lemma get_token_setup [case_names no_scopes client_raises load_raises no_cache resolve]:
  fixes b :: base and cl :: client
    and scopes :: "string list" and claims tenant_id :: "string option" and enable_cae :: bool
    and kwargs :: kwargs and self :: world
  defines "R \<equiv> get_token b cl scopes claims tenant_id enable_cae kwargs self"
  obtains
    "scopes = []" "R = (Inl (ValueError '''get_token' requires at least one scope''), self, [])"
  | e w where "scopes \<noteq> []" "R = (Inl e, w, [Initialize_client (Inl e)])"
  | pre e w where "scopes \<noteq> []" "list_all (setup_call enable_cae) pre"
      "R = (Inl e, w, pre @ [Initialize_cache enable_cae (Inl e)])"
  | pre w where "scopes \<noteq> []" "list_all (setup_call enable_cae) pre"
      "R = (Inl (CredentialUnavailableError ''Shared token cache unavailable''), w,
            pre @ [Initialize_cache enable_cae (Inr None)])"
  | pre w where "scopes \<noteq> []" "list_all (setup_call enable_cae) pre"
      "R = from_account b cl scopes claims tenant_id enable_cae kwargs (w, pre)"
proof (cases "scopes = []")
  case True
  then have "R = (Inl (ValueError '''get_token' requires at least one scope''), self, [])"
    by (simp add: R_def get_token_def)
  with True show thesis by (rule that(1))
next
  case False
  note sc = this
  define st1 where "st1 = (if \<not> self_client_initialized self
            then invoke Initialize_client (initialize_client b) (self, [])
            else (Inr (), self, []))"
  obtain r1 w1 l1 where s1: "st1 = (r1, w1, l1)"
    by (cases st1)
  show thesis
  proof (cases r1)
    case (Inl e)
    with s1 have "l1 = [Initialize_client (Inl e)]"
      by (auto simp: st1_def invoke_def split: if_splits prod.splits)
    with s1 Inl sc have "R = (Inl e, w1, [Initialize_client (Inl e)])"
      unfolding R_def get_token_def st1_def [symmetric] by simp
    with sc show thesis by (rule that(2))
  next
    case (Inr x)
    note r1 = this
    with s1 have l1: "list_all (setup_call enable_cae) l1"
      by (auto simp: st1_def invoke_def split: if_splits prod.splits)
    define st2 where "st2 = (if (if enable_cae then self_cae_cache w1 else self_cache w1) = None
                  then invoke (Initialize_cache enable_cae) (initialize_cache b enable_cae) (w1, l1)
                  else (Inr (if enable_cae then self_cae_cache w1 else self_cache w1), w1, l1))"
    obtain r2 w2 l2 where s2: "st2 = (r2, w2, l2)"
      by (cases st2)
    have R2: "R = (case st2 of
              (Inl e, st2) \<Rightarrow> (Inl e, st2)
            | (Inr None, st2) \<Rightarrow>
                (Inl (CredentialUnavailableError ''Shared token cache unavailable''), st2)
            | (Inr (Some _), st2) \<Rightarrow> from_account b cl scopes claims tenant_id enable_cae kwargs st2)"
      using sc s1 r1 unfolding R_def get_token_def st1_def [symmetric] st2_def from_account_def
      by (simp add: Let_def)
    show thesis
    proof (cases r2)
      case (Inl e)
      with s2 have "l2 = l1 @ [Initialize_cache enable_cae (Inl e)]"
        by (auto simp: st2_def invoke_def split: if_splits prod.splits)
      with s2 Inl R2 have "R = (Inl e, w2, l1 @ [Initialize_cache enable_cae (Inl e)])"
        by simp
      with sc l1 show thesis by (rule that(3))
    next
      case (Inr found)
      note r2 = this
      show thesis
      proof (cases found)
        case None
        with s2 r2 have "l2 = l1 @ [Initialize_cache enable_cae (Inr None)]"
          by (auto simp: st2_def invoke_def split: if_splits prod.splits)
        with s2 r2 None R2 have "R = (Inl (CredentialUnavailableError ''Shared token cache unavailable''), w2,
            l1 @ [Initialize_cache enable_cae (Inr None)])"
          by simp
        with sc l1 show thesis by (rule that(4))
      next
        case (Some tc)
        with s2 r2 l1 have l2: "list_all (setup_call enable_cae) l2"
          by (auto simp: st2_def invoke_def split: if_splits prod.splits)
        from s2 r2 Some R2 have "R = from_account b cl scopes claims tenant_id enable_cae kwargs (w2, l2)"
          by simp
        with sc l2 show thesis by (rule that(5))
      qed
    qed
  qed
qed

lemma get_token_paths [case_names no_scopes client_raises load_raises no_cache account_raises
    lookup_raises cached tokens_raise no_refresh_token exchange]:
  fixes b :: base and cl :: client
    and scopes :: "string list" and claims tenant_id :: "string option" and enable_cae :: bool
    and kwargs :: kwargs and self :: world
  defines "R \<equiv> get_token b cl scopes claims tenant_id enable_cae kwargs self"
  obtains
    "scopes = []" "R = (Inl (ValueError '''get_token' requires at least one scope''), self, [])"
  | e w where "scopes \<noteq> []" "R = (Inl e, w, [Initialize_client (Inl e)])"
  | pre e w where "scopes \<noteq> []" "list_all (setup_call enable_cae) pre"
      "R = (Inl e, w, pre @ [Initialize_cache enable_cae (Inl e)])"
  | pre w where "scopes \<noteq> []" "list_all (setup_call enable_cae) pre"
      "R = (Inl (CredentialUnavailableError ''Shared token cache unavailable''), w,
            pre @ [Initialize_cache enable_cae (Inr None)])"
  | pre u t e w where "scopes \<noteq> []" "list_all (setup_call enable_cae) pre"
      "R = (Inl e, w, pre @ [Get_account u t enable_cae (Inl e)])"
  | pre u t account e w where "scopes \<noteq> []" "list_all (setup_call enable_cae) pre"
      "R = (Inl e, w, pre @ [Get_account u t enable_cae (Inr account),
              Get_cached_access_token scopes account enable_cae (Inl e)])"
  | pre u t account tok w where "scopes \<noteq> []" "list_all (setup_call enable_cae) pre"
      "R = (Inr tok, w, pre @ [Get_account u t enable_cae (Inr account),
              Get_cached_access_token scopes account enable_cae (Inr (Some tok))])"
  | pre u t account e w where "scopes \<noteq> []" "list_all (setup_call enable_cae) pre"
      "R = (Inl e, w, pre @ [Get_account u t enable_cae (Inr account),
              Get_cached_access_token scopes account enable_cae (Inr None),
              Get_refresh_tokens account enable_cae (Inl e)])"
  | pre u t account w where "scopes \<noteq> []" "list_all (setup_call enable_cae) pre"
      "R = (Inl (CredentialUnavailableError (format1 NO_TOKEN (py_str (map_of account ''username'')))),
            w, pre @ [Get_account u t enable_cae (Inr account),
              Get_cached_access_token scopes account enable_cae (Inr None),
              Get_refresh_tokens account enable_cae (Inr [])])"
  | pre u t account refresh_token rest r w where "scopes \<noteq> []"
      "list_all (setup_call enable_cae) pre"
      "R = (r, w, pre @ [Get_account u t enable_cae (Inr account),
              Get_cached_access_token scopes account enable_cae (Inr None),
              Get_refresh_tokens account enable_cae (Inr (refresh_token # rest)),
              Obtain_token_by_refresh_token scopes refresh_token claims tenant_id kwargs r])"
proof (cases rule: get_token_setup [of scopes b cl claims tenant_id enable_cae kwargs self])
  case no_scopes
  from this [folded R_def] show thesis by (rule that(1))
next
  case (client_raises e w)
  from this [folded R_def] show thesis by (rule that(2))
next
  case (load_raises pre e w)
  from this [folded R_def] show thesis by (rule that(3))
next
  case (no_cache pre w)
  from this [folded R_def] show thesis by (rule that(4))
next
  case (resolve pre w2)
  note sc = resolve(1) and pre = resolve(2) and eq = resolve(3)
  show thesis
  proof (cases rule: from_account_paths [of b cl scopes claims tenant_id enable_cae kwargs "(w2, pre)"])
    case (account_raises e w)
    with eq have "R = (Inl e, w, pre @ [Get_account (self_username w2) (self_tenant_id w2) enable_cae (Inl e)])"
      by (simp add: R_def)
    with sc pre show thesis by (rule that(5))
  next
    case (lookup_raises account e w)
    with eq have "R = (Inl e, w, pre @ [Get_account (self_username w2) (self_tenant_id w2) enable_cae (Inr account),
              Get_cached_access_token scopes account enable_cae (Inl e)])"
      by (simp add: R_def)
    with sc pre show thesis by (rule that(6))
  next
    case (cached account tok w)
    with eq have "R = (Inr tok, w, pre @ [Get_account (self_username w2) (self_tenant_id w2) enable_cae (Inr account),
              Get_cached_access_token scopes account enable_cae (Inr (Some tok))])"
      by (simp add: R_def)
    with sc pre show thesis by (rule that(7))
  next
    case (tokens_raise account e w)
    with eq have "R = (Inl e, w, pre @ [Get_account (self_username w2) (self_tenant_id w2) enable_cae (Inr account),
              Get_cached_access_token scopes account enable_cae (Inr None),
              Get_refresh_tokens account enable_cae (Inl e)])"
      by (simp add: R_def)
    with sc pre show thesis by (rule that(8))
  next
    case (no_refresh_token account w)
    with eq have "R = (Inl (CredentialUnavailableError (format1 NO_TOKEN (py_str (map_of account ''username'')))),
            w, pre @ [Get_account (self_username w2) (self_tenant_id w2) enable_cae (Inr account),
              Get_cached_access_token scopes account enable_cae (Inr None),
              Get_refresh_tokens account enable_cae (Inr [])])"
      by (simp add: R_def)
    with sc pre show thesis by (rule that(9))
  next
    case (exchange account refresh_token rest r w)
    with eq have "R = (r, w, pre @ [Get_account (self_username w2) (self_tenant_id w2) enable_cae (Inr account),
              Get_cached_access_token scopes account enable_cae (Inr None),
              Get_refresh_tokens account enable_cae (Inr (refresh_token # rest)),
              Obtain_token_by_refresh_token scopes refresh_token claims tenant_id kwargs r])"
      by (simp add: R_def)
    with sc pre show thesis by (rule that(10))
  qed
qed

lemma setup_no_exchange: "list_all (setup_call flag) pre \<Longrightarrow> filter is_exchange pre = []"
proof (induction pre)
  case Nil
  show ?case by simp
next
  case (Cons c pre)
  then show ?case by (cases c) simp_all
qed

lemma setup_not_member:
  assumes "list_all (setup_call flag) pre"
  shows "Get_refresh_tokens a f r \<notin> set pre"
    and "Get_cached_access_token s a f r' \<notin> set pre"
    and "Obtain_token_by_refresh_token s rt c t kw r'' \<notin> set pre"
    and "Initialize_cache f (Inr None) \<notin> set pre"
  using assms by (auto simp: list_all_iff)

lemma setup_flags:
  assumes "list_all (setup_call flag) pre" and "c \<in> set pre"
  shows "cache_flag c = None \<or> cache_flag c = Some flag"
proof -
  from assms have "setup_call flag c"
    by (simp add: list_all_iff)
  then show ?thesis
    by (cases "(flag, c)" rule: setup_call.cases) simp_all
qed

text \<open>The state along lines 134 to 147: a property the three lookups preserve holds at the
  end, unless the exchange is called; then it holds of the state the exchange is given.\<close>

lemma from_account_frame:
  fixes st2 :: "world \<times> call list"
  assumes P: "P (fst st2)" and nx: "filter is_exchange (snd st2) = []"
    and ga: "\<And>u t f w. P w \<Longrightarrow> P (snd (get_account b u t f w))"
    and gc: "\<And>s a f w. P w \<Longrightarrow> P (snd (get_cached_access_token b s a f w))"
    and gr: "\<And>a f w. P w \<Longrightarrow> P (snd (get_refresh_tokens b a f w))"
  shows "filter is_exchange (calls (from_account b cl scopes claims tenant_id is_cae kwargs st2)) = []
           \<and> P (world_after (from_account b cl scopes claims tenant_id is_cae kwargs st2))
       \<or> (\<exists>rt w. P w
            \<and> filter is_exchange (calls (from_account b cl scopes claims tenant_id is_cae kwargs st2))
                = [Obtain_token_by_refresh_token scopes rt claims tenant_id kwargs
                     (outcome (from_account b cl scopes claims tenant_id is_cae kwargs st2))]
            \<and> from_account b cl scopes claims tenant_id is_cae kwargs st2
                = (fst (obtain_token_by_refresh_token cl scopes rt claims tenant_id kwargs w),
                   snd (obtain_token_by_refresh_token cl scopes rt claims tenant_id kwargs w),
                   calls (from_account b cl scopes claims tenant_id is_cae kwargs st2)))"
proof -
  let ?u = "self_username (fst st2)" and ?t = "self_tenant_id (fst st2)"
  obtain r3 w3 where s3: "get_account b ?u ?t is_cae (fst st2) = (r3, w3)"
    by (cases "get_account b ?u ?t is_cae (fst st2)")
  from ga [OF P, of ?u ?t is_cae] s3 have P3: "P w3" by simp
  show ?thesis
  proof (cases r3)
    case (Inl e)
    with s3 nx P3 show ?thesis
      by (simp add: from_account_def invoke_def calls_def world_after_def)
  next
    case (Inr account)
    note r3 = this
    obtain r4 w4 where s4: "get_cached_access_token b scopes account is_cae w3 = (r4, w4)"
      by (cases "get_cached_access_token b scopes account is_cae w3")
    from gc [OF P3, of scopes account is_cae] s4 have P4: "P w4" by simp
    show ?thesis
    proof (cases r4)
      case (Inl e)
      with s3 r3 s4 nx P4 show ?thesis
        by (simp add: from_account_def invoke_def calls_def world_after_def)
    next
      case (Inr found)
      note r4 = this
      show ?thesis
      proof (cases found)
        case (Some tok)
        with s3 r3 s4 r4 nx P4 show ?thesis
          by (simp add: from_account_def invoke_def calls_def world_after_def)
      next
        case None
        note found = this
        obtain r5 w5 where s5: "get_refresh_tokens b account is_cae w4 = (r5, w5)"
          by (cases "get_refresh_tokens b account is_cae w4")
        from gr [OF P4, of account is_cae] s5 have P5: "P w5" by simp
        show ?thesis
        proof (cases r5)
          case (Inl e)
          with s3 r3 s4 r4 found s5 nx P5 show ?thesis
            by (simp add: from_account_def invoke_def calls_def world_after_def)
        next
          case (Inr tokens)
          note r5 = this
          show ?thesis
          proof (cases tokens)
            case Nil
            with s3 r3 s4 r4 found s5 r5 nx P5 show ?thesis
              by (simp add: from_account_def invoke_def calls_def world_after_def)
          next
            case (Cons refresh_token rest)
            with s3 r3 s4 r4 found s5 r5 nx
            have "filter is_exchange (calls (from_account b cl scopes claims tenant_id is_cae kwargs st2))
                = [Obtain_token_by_refresh_token scopes refresh_token claims tenant_id kwargs
                     (outcome (from_account b cl scopes claims tenant_id is_cae kwargs st2))]
              \<and> from_account b cl scopes claims tenant_id is_cae kwargs st2
                = (fst (obtain_token_by_refresh_token cl scopes refresh_token claims tenant_id kwargs w5),
                   snd (obtain_token_by_refresh_token cl scopes refresh_token claims tenant_id kwargs w5),
                   calls (from_account b cl scopes claims tenant_id is_cae kwargs st2))"
              by (simp add: from_account_def invoke_def calls_def outcome_def case_prod_beta)
            with P5 show ?thesis by blast
          qed
        qed
      qed
    qed
  qed
qed

subsection \<open>get_token over the collaborators modelled from the spec\<close>

lemma spec_setup_none:
  assumes "scopes \<noteq> []" and "available enable_cae self = None"
  shows "get_token (spec_base skew) cl scopes claims tenant_id enable_cae kwargs self =
           (Inl (CredentialUnavailableError ''Shared token cache unavailable''), loaded enable_cae self,
            (if self_client_initialized self then [] else [Initialize_client (Inr ())])
              @ [Initialize_cache enable_cae (Inr None)])"
  using assms
  by (cases "self_client_initialized self"; cases enable_cae)
     (auto simp: get_token_def spec_base_def invoke_def initialize_client_spec_def
        initialize_cache_spec_def selected_cache_def persistent_store_def available_def loaded_def
        split: option.splits)

lemma spec_setup_some:
  assumes "scopes \<noteq> []" and "available enable_cae self = Some tc"
  shows "get_token (spec_base skew) cl scopes claims tenant_id enable_cae kwargs self =
           from_account (spec_base skew) cl scopes claims tenant_id enable_cae kwargs
             (loaded enable_cae self,
              (if self_client_initialized self then [] else [Initialize_client (Inr ())])
              @ (if selected_cache enable_cae self = None
                 then [Initialize_cache enable_cae (Inr (Some tc))] else []))"
  using assms
  unfolding get_token_def from_account_def [symmetric]
  by (cases "self_client_initialized self"; cases enable_cae)
     (auto simp: spec_base_def invoke_def initialize_client_spec_def
        initialize_cache_spec_def selected_cache_def persistent_store_def available_def loaded_def
        split: option.splits)

lemma spec_from_account:
  "from_account (spec_base skew) cl scopes claims tenant_id f kwargs (w, pre) =
     (case find_account (self_username w) (self_tenant_id w) (selected_cache f w) of
        Inl e \<Rightarrow> (Inl e, w, pre @ [Get_account (self_username w) (self_tenant_id w) f (Inl e)])
      | Inr account \<Rightarrow>
         (case find_access_token skew (now w) scopes account (selected_cache f w) of
            Some tok \<Rightarrow>
              (Inr tok, w, pre @ [Get_account (self_username w) (self_tenant_id w) f (Inr account),
                 Get_cached_access_token scopes account f (Inr (Some tok))])
          | None \<Rightarrow>
             (case refresh_tokens_of account (selected_cache f w) of
                [] \<Rightarrow>
                  (Inl (CredentialUnavailableError
                          (format1 NO_TOKEN (py_str (map_of account ''username'')))), w,
                   pre @ [Get_account (self_username w) (self_tenant_id w) f (Inr account),
                     Get_cached_access_token scopes account f (Inr None),
                     Get_refresh_tokens account f (Inr [])])
              | refresh_token # rest \<Rightarrow>
                  (case obtain_token_by_refresh_token cl scopes refresh_token claims tenant_id kwargs w of
                     (r, w') \<Rightarrow>
                       (r, w', pre @ [Get_account (self_username w) (self_tenant_id w) f (Inr account),
                          Get_cached_access_token scopes account f (Inr None),
                          Get_refresh_tokens account f (Inr (refresh_token # rest)),
                          Obtain_token_by_refresh_token scopes refresh_token claims tenant_id kwargs r])))))"
  by (simp add: from_account_def invoke_def spec_base_def get_account_spec_def
        get_cached_access_token_spec_def get_refresh_tokens_spec_def
        split: sum.splits option.splits list.splits prod.splits)

lemma loaded_fields:
  "self_username (loaded f w) = self_username w"
  "self_tenant_id (loaded f w) = self_tenant_id w"
  "now (loaded f w) = now w"
  "store_std (loaded f w) = store_std w"
  "store_cae (loaded f w) = store_cae w"
  "selected_cache f (loaded f w) = available f w"
  "selected_cache (\<not> f) (loaded f w) = selected_cache (\<not> f) w"
  by (auto simp: loaded_def Let_def selected_cache_def available_def persistent_store_def
        split: option.splits)


lemma find_account_cases:
  "find_account u t (Some tc) =
     (if length (filter (matches_selectors u t) (accounts tc)) = 1
      then Inr (hd (filter (matches_selectors u t) (accounts tc)))
      else Inl (CredentialUnavailableError
             (if filter (matches_selectors u t) (accounts tc) = [] then ''no account found''
              else ''multiple accounts found; specify username/tenant'')))"
  by (cases "filter (matches_selectors u t) (accounts tc)" rule: remdups_adj.cases)
     (simp_all add: find_account_def)


lemma format1_NO_TOKEN: "format1 NO_TOKEN a = ''no usable refresh token for account '' @ a"
  by (simp add: NO_TOKEN_def)

lemmas example_defs = alice_def bob_def example_cache_def example_world_def example_exchange_def
  spec_base_def spec_client_def initialize_client_spec_def initialize_cache_spec_def
  get_account_spec_def get_cached_access_token_spec_def get_refresh_tokens_spec_def
  selected_cache_def persistent_store_def find_account_def matches_selectors_def usable_def
  find_access_token_def refresh_tokens_of_def get_token_def invoke_def py_str_def
  outcome_def calls_def world_after_def available_def new_credential_def
  SharedTokenCacheCredential_get_token_def

section \<open>Properties\<close>

text \<open>
  Claim C1. A call with no scope raises ValueError before anything else happens: no
  collaborator is called (no client initialisation, no cache load, no cache lookup, no
  exchange) and the state is left as it was. This holds for every behaviour of the
  collaborators.
\<close>

theorem empty_scopes_fail_first:
  "get_token b cl [] claims tenant_id enable_cae kwargs self =
     (Inl (ValueError '''get_token' requires at least one scope''), self, [])"
  by (simp add: get_token_def)

text \<open>
  Claim C2. With the lookup modelled from the spec: when the call has a scope, the selected
  cache is available, exactly one account is resolved and that account has a cached access
  token whose scopes include the requested ones and whose expiry is later than the current
  time plus the margin, get_token returns the first such token of the cache, with its expiry,
  and makes no exchange call. The request's claims play no part: line 136 does not pass them
  to the lookup, so the statement holds for every value of \<open>claims\<close>.
\<close>

theorem cached_token_returned:
  assumes "scopes \<noteq> []"
    and "available enable_cae self = Some tc"
    and "find_account (self_username self) (self_tenant_id self) (Some tc) = Inr account"
    and "t \<in> set (access_tokens tc)"
    and "usable skew (now self) scopes account t"
  shows "\<exists>t'. find (usable skew (now self) scopes account) (access_tokens tc) = Some t'
            \<and> t' \<in> set (access_tokens tc) \<and> usable skew (now self) scopes account t'
            \<and> outcome (get_token (spec_base skew) cl scopes claims tenant_id enable_cae kwargs self)
                = Inr (AccessToken (at_secret t') (at_expires_on t'))
            \<and> filter is_exchange
                (calls (get_token (spec_base skew) cl scopes claims tenant_id enable_cae kwargs self)) = []"
proof -
  from assms(4,5) have "find (usable skew (now self) scopes account) (access_tokens tc) \<noteq> None"
    by (auto simp: find_None_iff)
  then obtain t' where f: "find (usable skew (now self) scopes account) (access_tokens tc) = Some t'"
    by blast
  then have mem: "t' \<in> set (access_tokens tc)" and ok: "usable skew (now self) scopes account t'"
    by (auto simp: find_Some_iff)
  have "get_token (spec_base skew) cl scopes claims tenant_id enable_cae kwargs self
      = (Inr (AccessToken (at_secret t') (at_expires_on t')), loaded enable_cae self,
         ((if self_client_initialized self then [] else [Initialize_client (Inr ())])
              @ (if selected_cache enable_cae self = None
                 then [Initialize_cache enable_cae (Inr (Some tc))] else []))
         @ [Get_account (self_username self) (self_tenant_id self) enable_cae (Inr account),
            Get_cached_access_token scopes account enable_cae
              (Inr (Some (AccessToken (at_secret t') (at_expires_on t'))))])"
    using assms(1,2,3) f
    by (simp add: spec_setup_some spec_from_account loaded_fields find_access_token_def)
  with f mem ok show ?thesis
    by (simp add: outcome_def calls_def)
qed

theorem cached_token_returned_witness:
  "available False (example_world (Some example_cache) 1000) = Some example_cache
   \<and> find_account None None (Some example_cache) = Inr alice
   \<and> usable 300 1000 [''https://service/.default''] alice
        \<lparr>at_secret = ''cached-token'', at_expires_on = 5000,
         at_scopes = [''https://service/.default''], at_home_account_id = ''alice.contoso''\<rparr>
   \<and> outcome (get_token (spec_base 300) (spec_client example_exchange)
        [''https://service/.default''] None None False [] (example_world (Some example_cache) 1000))
       = Inr (AccessToken ''cached-token'' 5000)
   \<and> filter is_exchange (calls (get_token (spec_base 300) (spec_client example_exchange)
        [''https://service/.default''] None None False [] (example_world (Some example_cache) 1000)))
       = []"
  using cached_token_returned [where scopes = "[''https://service/.default'']"
      and enable_cae = False and self = "example_world (Some example_cache) 1000"
      and tc = example_cache and account = alice and skew = 300
      and t = "\<lparr>at_secret = ''cached-token'', at_expires_on = 5000,
         at_scopes = [''https://service/.default''], at_home_account_id = ''alice.contoso''\<rparr>"
      and cl = "spec_client example_exchange" and claims = None and tenant_id = None
      and kwargs = "[]"]
  by (simp add: example_defs)

text \<open>
  Claim C3. Every call makes at most one exchange call. When the call reaches the loop over
  the refresh tokens and the account yields at least one, the only exchange call is the one
  for the first token yielded, with the scopes, claims, tenant and keyword arguments of the
  call, and get_token ends with what that exchange returned or raised; no other refresh token
  is tried. This holds for every behaviour of the collaborators.
\<close>

theorem at_most_one_exchange_first_refresh_token:
  "length (filter is_exchange (calls (get_token b cl scopes claims tenant_id enable_cae kwargs self))) \<le> 1
   \<and> (\<forall>account flag refresh_token rest.
        Get_refresh_tokens account flag (Inr (refresh_token # rest))
          \<in> set (calls (get_token b cl scopes claims tenant_id enable_cae kwargs self)) \<longrightarrow>
        (\<exists>r. filter is_exchange (calls (get_token b cl scopes claims tenant_id enable_cae kwargs self))
               = [Obtain_token_by_refresh_token scopes refresh_token claims tenant_id kwargs r]
           \<and> outcome (get_token b cl scopes claims tenant_id enable_cae kwargs self) = r))"
  by (cases rule: get_token_paths [of scopes b cl claims tenant_id enable_cae kwargs self])
     (simp_all add: calls_def outcome_def setup_no_exchange setup_not_member)

theorem at_most_one_exchange_first_refresh_token_witness:
  "Get_refresh_tokens alice False (Inr [''refresh-1'', ''refresh-2''])
     \<in> set (calls (get_token (spec_base 300) (spec_client example_exchange)
          [''https://service/.default''] None (Some ''fabrikam'') False []
          (example_world (Some example_cache) 6000)))
   \<and> filter is_exchange (calls (get_token (spec_base 300) (spec_client example_exchange)
          [''https://service/.default''] None (Some ''fabrikam'') False []
          (example_world (Some example_cache) 6000)))
       = [Obtain_token_by_refresh_token [''https://service/.default''] ''refresh-1'' None
            (Some ''fabrikam'') [] (Inr (AccessToken ''issued-for-fabrikam'' 9000))]
   \<and> outcome (get_token (spec_base 300) (spec_client example_exchange)
          [''https://service/.default''] None (Some ''fabrikam'') False []
          (example_world (Some example_cache) 6000))
       = Inr (AccessToken ''issued-for-fabrikam'' 9000)"
  using at_most_one_exchange_first_refresh_token [where b = "spec_base 300"
      and cl = "spec_client example_exchange" and scopes = "[''https://service/.default'']"
      and claims = None and tenant_id = "Some ''fabrikam''" and enable_cae = False
      and kwargs = "[]" and self = "example_world (Some example_cache) 6000"]
  by (simp add: example_defs)

text \<open>
  Claim C4. When the call has a scope, the cache the flag selects is not loaded (the attribute
  is \<^verbatim>\<open>None\<close> once the client is initialised) and loading it yields no cache, get_token
  raises CredentialUnavailableError "Shared token cache unavailable"; the load is its last
  call, and it makes no exchange call. Here \<open>w_init\<close> is the state in which the cache is
  selected and \<open>w_load\<close> the state the load leaves. This holds for every behaviour of the
  collaborators.
\<close>

theorem unloadable_cache_unavailable:
  assumes "scopes \<noteq> []"
    and "if self_client_initialized self then w_init = self
         else initialize_client b self = (Inr (), w_init)"
    and "(if enable_cae then self_cae_cache w_init else self_cache w_init) = None"
    and "initialize_cache b enable_cae w_init = (Inr None, w_load)"
  shows "outcome (get_token b cl scopes claims tenant_id enable_cae kwargs self)
           = Inl (CredentialUnavailableError ''Shared token cache unavailable'')
       \<and> world_after (get_token b cl scopes claims tenant_id enable_cae kwargs self) = w_load
       \<and> last (calls (get_token b cl scopes claims tenant_id enable_cae kwargs self))
           = Initialize_cache enable_cae (Inr None)
       \<and> filter is_exchange (calls (get_token b cl scopes claims tenant_id enable_cae kwargs self))
           = []"
proof (cases "self_client_initialized self")
  case True
  with assms(2) have "w_init = self"
    by simp
  with assms(1,3,4) True show ?thesis
    by (cases enable_cae)
       (simp_all add: get_token_def invoke_def Let_def outcome_def world_after_def calls_def)
next
  case False
  with assms(2) have "initialize_client b self = (Inr (), w_init)"
    by simp
  with assms(1,3,4) False show ?thesis
    by (cases enable_cae)
       (simp_all add: get_token_def invoke_def Let_def outcome_def world_after_def calls_def)
qed

theorem unloadable_cache_unavailable_witness:
  "initialize_client (spec_base 300) (example_world None 6000)
     = (Inr (), (example_world None 6000)\<lparr>self_client_initialized := True\<rparr>)
   \<and> initialize_cache (spec_base 300) False
       ((example_world None 6000)\<lparr>self_client_initialized := True\<rparr>)
     = (Inr None, (example_world None 6000)\<lparr>self_client_initialized := True, self_cache := None\<rparr>)
   \<and> outcome (get_token (spec_base 300) (spec_client example_exchange)
        [''https://service/.default''] None None False [] (example_world None 6000))
       = Inl (CredentialUnavailableError ''Shared token cache unavailable'')
   \<and> calls (get_token (spec_base 300) (spec_client example_exchange)
        [''https://service/.default''] None None False [] (example_world None 6000))
       = [Initialize_client (Inr ()), Initialize_cache False (Inr None)]"
  using unloadable_cache_unavailable [where scopes = "[''https://service/.default'']"
      and self = "example_world None 6000" and b = "spec_base 300" and enable_cae = False
      and w_init = "(example_world None 6000)\<lparr>self_client_initialized := True\<rparr>"
      and w_load = "(example_world None 6000)\<lparr>self_client_initialized := True, self_cache := None\<rparr>"
      and cl = "spec_client example_exchange" and claims = None and tenant_id = None
      and kwargs = "[]"]
  by (simp add: example_defs)

text \<open>
  Claim C5. Every call that consults a cache (the load, the account lookup, the access-token
  lookup, the enumeration of refresh tokens) is given the flag of the call, whatever the
  collaborators do. With the collaborators modelled from the spec, the other cache is
  invisible: two states that agree on the credential's settings, the clock and the cache the
  flag selects (in memory and in the store), and differ in the other cache as they like, give
  the same outcome and the same log.
\<close>

theorem only_selected_cache:
  "(\<forall>c \<in> set (calls (get_token b cl scopes claims tenant_id enable_cae kwargs self)).
      cache_flag c = None \<or> cache_flag c = Some enable_cae)
   \<and> (self_client_initialized self' = self_client_initialized self
        \<and> self_username self' = self_username self \<and> self_tenant_id self' = self_tenant_id self
        \<and> now self' = now self
        \<and> selected_cache enable_cae self' = selected_cache enable_cae self
        \<and> persistent_store enable_cae self' = persistent_store enable_cae self
      \<longrightarrow> outcome (get_token (spec_base skew) (spec_client exchange) scopes claims tenant_id
                      enable_cae kwargs self')
            = outcome (get_token (spec_base skew) (spec_client exchange) scopes claims tenant_id
                      enable_cae kwargs self)
          \<and> calls (get_token (spec_base skew) (spec_client exchange) scopes claims tenant_id
                      enable_cae kwargs self')
            = calls (get_token (spec_base skew) (spec_client exchange) scopes claims tenant_id
                      enable_cae kwargs self))"
proof (intro conjI impI)
  show "\<forall>c \<in> set (calls (get_token b cl scopes claims tenant_id enable_cae kwargs self)).
      cache_flag c = None \<or> cache_flag c = Some enable_cae"
    by (cases rule: get_token_paths [of scopes b cl claims tenant_id enable_cae kwargs self])
       (auto simp: calls_def dest: setup_flags)
next
  assume a: "self_client_initialized self' = self_client_initialized self
        \<and> self_username self' = self_username self \<and> self_tenant_id self' = self_tenant_id self
        \<and> now self' = now self
        \<and> selected_cache enable_cae self' = selected_cache enable_cae self
        \<and> persistent_store enable_cae self' = persistent_store enable_cae self"
  then have "selected_cache enable_cae self' = selected_cache enable_cae self"
    and "persistent_store enable_cae self' = persistent_store enable_cae self"
    by simp_all
  then have av: "available enable_cae self' = available enable_cae self"
    unfolding available_def by (simp split: option.splits)
  have "outcome (get_token (spec_base skew) (spec_client exchange) scopes claims tenant_id
                      enable_cae kwargs self')
            = outcome (get_token (spec_base skew) (spec_client exchange) scopes claims tenant_id
                      enable_cae kwargs self)
          \<and> calls (get_token (spec_base skew) (spec_client exchange) scopes claims tenant_id
                      enable_cae kwargs self')
            = calls (get_token (spec_base skew) (spec_client exchange) scopes claims tenant_id
                      enable_cae kwargs self)"
  proof (cases "scopes = []")
    case True
    then show ?thesis by (simp add: get_token_def outcome_def calls_def)
  next
    case False
    show ?thesis
    proof (cases "available enable_cae self")
      case None
      with False a av show ?thesis
        by (simp add: spec_setup_none outcome_def calls_def)
    next
      case (Some tc)
      with False a av show ?thesis
        by (simp add: spec_setup_some spec_from_account loaded_fields spec_client_def
              outcome_def calls_def
              split: sum.splits option.splits list.splits)
    qed
  qed
  then show "outcome (get_token (spec_base skew) (spec_client exchange) scopes claims tenant_id
                      enable_cae kwargs self')
            = outcome (get_token (spec_base skew) (spec_client exchange) scopes claims tenant_id
                      enable_cae kwargs self)"
    and "calls (get_token (spec_base skew) (spec_client exchange) scopes claims tenant_id
                      enable_cae kwargs self')
            = calls (get_token (spec_base skew) (spec_client exchange) scopes claims tenant_id
                      enable_cae kwargs self)"
    by simp_all
qed

theorem only_selected_cache_witness:
  "outcome (get_token (spec_base 300) (spec_client example_exchange)
      [''https://service/.default''] None None False []
      ((example_world None 1000)\<lparr>store_cae := Some example_cache\<rparr>))
     = Inl (CredentialUnavailableError ''Shared token cache unavailable'')
   \<and> calls (get_token (spec_base 300) (spec_client example_exchange)
      [''https://service/.default''] None None False []
      ((example_world None 1000)\<lparr>store_cae := Some example_cache\<rparr>))
     = calls (get_token (spec_base 300) (spec_client example_exchange)
      [''https://service/.default''] None None False [] (example_world None 1000))
   \<and> outcome (get_token (spec_base 300) (spec_client example_exchange)
      [''https://service/.default''] None None True []
      ((example_world None 1000)\<lparr>store_cae := Some example_cache\<rparr>))
     = Inr (AccessToken ''cached-token'' 5000)
   \<and> list_all (\<lambda>c. cache_flag c = None \<or> cache_flag c = Some True)
       (calls (get_token (spec_base 300) (spec_client example_exchange)
          [''https://service/.default''] None None True []
          ((example_world None 1000)\<lparr>store_cae := Some example_cache\<rparr>)))"
  using only_selected_cache [where b = "spec_base 300" and cl = "spec_client example_exchange"
      and scopes = "[''https://service/.default'']" and claims = None and tenant_id = None
      and enable_cae = False and kwargs = "[]" and skew = 300 and exchange = example_exchange
      and self = "example_world None 1000"
      and self' = "(example_world None 1000)\<lparr>store_cae := Some example_cache\<rparr>"]
  by (simp add: example_defs)

text \<open>
  Claim C6. With the account lookup modelled from the spec: on a call with a scope and an
  available cache, when the number of accounts that match the configured username and tenant
  is not one (none, or more than one), get_token raises CredentialUnavailableError, the
  account lookup is its last call, and it makes no exchange call; when exactly one account
  matches, get_token goes on to the access-token lookup for that account.
\<close>

theorem account_selection:
  assumes "scopes \<noteq> []"
    and "available enable_cae self = Some tc"
  shows "(length (filter (matches_selectors (self_username self) (self_tenant_id self)) (accounts tc)) \<noteq> 1
          \<longrightarrow> (\<exists>msg. outcome (get_token (spec_base skew) cl scopes claims tenant_id enable_cae kwargs self)
                        = Inl (CredentialUnavailableError msg)
                  \<and> last (calls (get_token (spec_base skew) cl scopes claims tenant_id enable_cae kwargs self))
                        = Get_account (self_username self) (self_tenant_id self) enable_cae
                            (Inl (CredentialUnavailableError msg)))
              \<and> filter is_exchange
                  (calls (get_token (spec_base skew) cl scopes claims tenant_id enable_cae kwargs self)) = [])
       \<and> (\<forall>account.
            filter (matches_selectors (self_username self) (self_tenant_id self)) (accounts tc) = [account]
            \<longrightarrow> (\<exists>r. Get_cached_access_token scopes account enable_cae (Inr r)
                       \<in> set (calls (get_token (spec_base skew) cl scopes claims tenant_id enable_cae kwargs self))))"
  using assms
  by (auto simp: spec_setup_some spec_from_account loaded_fields find_account_cases
        outcome_def calls_def
        split: option.splits list.splits prod.splits)

theorem account_selection_witness:
  "available False (example_world (Some (example_cache\<lparr>accounts := [alice, bob]\<rparr>)) 1000)
     = Some (example_cache\<lparr>accounts := [alice, bob]\<rparr>)
   \<and> filter (matches_selectors None None) [alice, bob] = [alice, bob]
   \<and> outcome (get_token (spec_base 300) (spec_client example_exchange)
        [''https://service/.default''] None None False []
        (example_world (Some (example_cache\<lparr>accounts := [alice, bob]\<rparr>)) 1000))
       = Inl (CredentialUnavailableError ''multiple accounts found; specify username/tenant'')
   \<and> outcome (get_token (spec_base 300) (spec_client example_exchange)
        [''https://service/.default''] None None False []
        (example_world (Some (example_cache\<lparr>accounts := []\<rparr>)) 1000))
       = Inl (CredentialUnavailableError ''no account found'')
   \<and> filter (matches_selectors (Some ''bob@example.com'') None) [alice, bob] = [bob]
   \<and> Get_cached_access_token [''https://service/.default''] bob False (Inr None)
       \<in> set (calls (get_token (spec_base 300) (spec_client example_exchange)
            [''https://service/.default''] None None False []
            ((example_world (Some (example_cache\<lparr>accounts := [alice, bob]\<rparr>)) 1000)
               \<lparr>self_username := Some ''bob@example.com''\<rparr>)))"
  using account_selection [where scopes = "[''https://service/.default'']"
      and enable_cae = False and skew = 300 and cl = "spec_client example_exchange"
      and claims = None and tenant_id = None and kwargs = "[]"
      and tc = "example_cache\<lparr>accounts := [alice, bob]\<rparr>"
      and self = "example_world (Some (example_cache\<lparr>accounts := [alice, bob]\<rparr>)) 1000"]
  by (simp add: example_defs)

text \<open>
  Claim C7. On a call with a scope, once the client is initialised and the selected cache is
  there (already in memory, or loaded), when the account lookup gives an account, the
  access-token lookup for that account finds no token and the enumeration of its refresh
  tokens yields none, get_token raises CredentialUnavailableError with the message
  \<^verbatim>\<open>NO_TOKEN.format(account.get("username"))\<close>, leaves the state the enumeration left and
  makes no exchange call. With the message template of the spec, the username of the account
  is part of the message. The hypotheses are on what the collaborators return, for every
  behaviour of theirs; the states \<open>w_init\<close> to \<open>w_end\<close> are the ones they leave.
\<close>

theorem no_refresh_token_unavailable:
  assumes "scopes \<noteq> []"
    and "if self_client_initialized self then w_init = self
         else initialize_client b self = (Inr (), w_init)"
    and "if (if enable_cae then self_cae_cache w_init else self_cache w_init) = None
         then \<exists>tc. initialize_cache b enable_cae w_init = (Inr (Some tc), w_load)
         else w_load = w_init"
    and "get_account b (self_username w_load) (self_tenant_id w_load) enable_cae w_load
           = (Inr account, w_account)"
    and "get_cached_access_token b scopes account enable_cae w_account = (Inr None, w_lookup)"
    and "get_refresh_tokens b account enable_cae w_lookup = (Inr [], w_end)"
  shows "outcome (get_token b cl scopes claims tenant_id enable_cae kwargs self)
           = Inl (CredentialUnavailableError (format1 NO_TOKEN (py_str (map_of account ''username''))))
       \<and> world_after (get_token b cl scopes claims tenant_id enable_cae kwargs self) = w_end
       \<and> filter is_exchange (calls (get_token b cl scopes claims tenant_id enable_cae kwargs self)) = []
       \<and> (\<forall>u. map_of account ''username'' = Some u
              \<longrightarrow> sublist u (format1 NO_TOKEN (py_str (map_of account ''username''))))"
proof -
  have "sublist u (format1 NO_TOKEN (py_str (Some u)))" for u
    unfolding format1_NO_TOKEN py_str_def option.case
    using sublist_appendI [of u "''no usable refresh token for account ''" "[]"] by simp
  then have sub: "\<forall>u. map_of account ''username'' = Some u
              \<longrightarrow> sublist u (format1 NO_TOKEN (py_str (map_of account ''username'')))"
    by simp
  define st1 where "st1 = (if \<not> self_client_initialized self
            then invoke Initialize_client (initialize_client b) (self, [])
            else (Inr (), self, []))"
  from assms(2) obtain l1 where s1: "st1 = (Inr (), w_init, l1)" and l1: "filter is_exchange l1 = []"
    by (cases "self_client_initialized self") (auto simp: st1_def invoke_def)
  define st2 where "st2 = (if (if enable_cae then self_cae_cache w_init else self_cache w_init) = None
                  then invoke (Initialize_cache enable_cae) (initialize_cache b enable_cae) (w_init, l1)
                  else (Inr (if enable_cae then self_cae_cache w_init else self_cache w_init), w_init, l1))"
  from assms(3) l1 obtain tc l2 where s2: "st2 = (Inr (Some tc), w_load, l2)"
    and l2: "filter is_exchange l2 = []"
    by (cases "(if enable_cae then self_cae_cache w_init else self_cache w_init) = None")
       (auto simp: st2_def invoke_def)
  have "get_token b cl scopes claims tenant_id enable_cae kwargs self
      = (case st2 of
              (Inl e, st2) \<Rightarrow> (Inl e, st2)
            | (Inr None, st2) \<Rightarrow>
                (Inl (CredentialUnavailableError ''Shared token cache unavailable''), st2)
            | (Inr (Some _), st2) \<Rightarrow> from_account b cl scopes claims tenant_id enable_cae kwargs st2)"
    using assms(1) s1
    unfolding get_token_def st1_def [symmetric] st2_def from_account_def
    by (simp add: Let_def)
  with s2 have "get_token b cl scopes claims tenant_id enable_cae kwargs self
      = from_account b cl scopes claims tenant_id enable_cae kwargs (w_load, l2)"
    by simp
  also have "\<dots> = (Inl (CredentialUnavailableError
                          (format1 NO_TOKEN (py_str (map_of account ''username'')))), w_end,
                   l2 @ [Get_account (self_username w_load) (self_tenant_id w_load) enable_cae (Inr account),
                     Get_cached_access_token scopes account enable_cae (Inr None),
                     Get_refresh_tokens account enable_cae (Inr [])])"
    using assms(4,5,6) by (simp add: from_account_def invoke_def)
  finally show ?thesis
    using sub l2 by (simp add: outcome_def world_after_def calls_def)
qed

theorem no_refresh_token_unavailable_witness:
  "get_refresh_tokens (spec_base 300) alice False
      ((example_world (Some (example_cache\<lparr>refresh_tokens := []\<rparr>)) 6000)
         \<lparr>self_client_initialized := True,
          self_cache := Some (example_cache\<lparr>refresh_tokens := []\<rparr>)\<rparr>)
     = (Inr [],
        (example_world (Some (example_cache\<lparr>refresh_tokens := []\<rparr>)) 6000)
         \<lparr>self_client_initialized := True,
          self_cache := Some (example_cache\<lparr>refresh_tokens := []\<rparr>)\<rparr>)
   \<and> outcome (get_token (spec_base 300) (spec_client example_exchange)
          [''https://service/.default''] None None False []
          (example_world (Some (example_cache\<lparr>refresh_tokens := []\<rparr>)) 6000))
       = Inl (CredentialUnavailableError ''no usable refresh token for account alice@example.com'')
   \<and> map_of alice ''username'' = Some ''alice@example.com''"
  using no_refresh_token_unavailable [where scopes = "[''https://service/.default'']"
      and self = "example_world (Some (example_cache\<lparr>refresh_tokens := []\<rparr>)) 6000"
      and b = "spec_base 300" and enable_cae = False
      and w_init = "(example_world (Some (example_cache\<lparr>refresh_tokens := []\<rparr>)) 6000)
                      \<lparr>self_client_initialized := True\<rparr>"
      and w_load = "(example_world (Some (example_cache\<lparr>refresh_tokens := []\<rparr>)) 6000)
         \<lparr>self_client_initialized := True,
          self_cache := Some (example_cache\<lparr>refresh_tokens := []\<rparr>)\<rparr>"
      and w_account = "(example_world (Some (example_cache\<lparr>refresh_tokens := []\<rparr>)) 6000)
         \<lparr>self_client_initialized := True,
          self_cache := Some (example_cache\<lparr>refresh_tokens := []\<rparr>)\<rparr>"
      and w_lookup = "(example_world (Some (example_cache\<lparr>refresh_tokens := []\<rparr>)) 6000)
         \<lparr>self_client_initialized := True,
          self_cache := Some (example_cache\<lparr>refresh_tokens := []\<rparr>)\<rparr>"
      and w_end = "(example_world (Some (example_cache\<lparr>refresh_tokens := []\<rparr>)) 6000)
         \<lparr>self_client_initialized := True,
          self_cache := Some (example_cache\<lparr>refresh_tokens := []\<rparr>)\<rparr>"
      and account = alice
      and cl = "spec_client example_exchange" and claims = None and tenant_id = None
      and kwargs = "[]"]
  by (simp add: example_defs NO_TOKEN_def)

text \<open>
  Claim C8. When the exchange raises, get_token ends with the same exception, as the exchange
  raised it; that exchange call is the only one of the call and the last entry of the log, so
  nothing is retried, with the same or another refresh token. This holds for every behaviour
  of the collaborators.
\<close>

theorem exchange_failure_propagates:
  assumes "Obtain_token_by_refresh_token sc rt c t kw (Inl e)
             \<in> set (calls (get_token b cl scopes claims tenant_id enable_cae kwargs self))"
  shows "outcome (get_token b cl scopes claims tenant_id enable_cae kwargs self) = Inl e
       \<and> filter is_exchange (calls (get_token b cl scopes claims tenant_id enable_cae kwargs self))
           = [Obtain_token_by_refresh_token sc rt c t kw (Inl e)]
       \<and> last (calls (get_token b cl scopes claims tenant_id enable_cae kwargs self))
           = Obtain_token_by_refresh_token sc rt c t kw (Inl e)"
  using assms
  by (cases rule: get_token_paths [of scopes b cl claims tenant_id enable_cae kwargs self])
     (simp_all add: calls_def outcome_def setup_no_exchange setup_not_member)

theorem exchange_failure_propagates_witness:
  "Obtain_token_by_refresh_token [''https://service/.default''] ''refresh-1'' None
       (Some ''revoked'') [] (Inl (ClientAuthenticationError ''invalid_grant''))
     \<in> set (calls (get_token (spec_base 300) (spec_client example_exchange)
          [''https://service/.default''] None (Some ''revoked'') False []
          (example_world (Some example_cache) 6000)))
   \<and> outcome (get_token (spec_base 300) (spec_client example_exchange)
          [''https://service/.default''] None (Some ''revoked'') False []
          (example_world (Some example_cache) 6000))
       = Inl (ClientAuthenticationError ''invalid_grant'')
   \<and> length (filter is_exchange (calls (get_token (spec_base 300) (spec_client example_exchange)
          [''https://service/.default''] None (Some ''revoked'') False []
          (example_world (Some example_cache) 6000)))) = 1"
  using exchange_failure_propagates [where sc = "[''https://service/.default'']"
      and rt = "''refresh-1''" and c = None and t = "Some ''revoked''" and kw = "[]"
      and e = "ClientAuthenticationError ''invalid_grant''"
      and b = "spec_base 300" and cl = "spec_client example_exchange"
      and scopes = "[''https://service/.default'']" and claims = None
      and tenant_id = "Some ''revoked''" and enable_cae = False and kwargs = "[]"
      and self = "example_world (Some example_cache) 6000"]
  by (simp add: example_defs)

text \<open>
  Claim C9, restated. get_token writes no cache itself: the state after a call is made by
  the collaborators it called and by nothing else. For every property \<open>P\<close> of the state
  that the base-class methods preserve (for instance: both caches and the store hold what they
  held), on every path that makes no exchange call (ValueError, CredentialUnavailableError, a
  cached token returned) \<open>P\<close> still holds after the call; on a path that makes the
  exchange call, \<open>P\<close> holds of the state the exchange is given, and the outcome and the
  state after the call are exactly what that one exchange call gave. Whether the caches change
  on that path is up to the client.
\<close>

theorem get_token_writes_nothing_itself:
  assumes P: "P self"
    and ic: "\<And>w. P w \<Longrightarrow> P (snd (initialize_client b w))"
    and lc: "\<And>f w. P w \<Longrightarrow> P (snd (initialize_cache b f w))"
    and ga: "\<And>u t f w. P w \<Longrightarrow> P (snd (get_account b u t f w))"
    and gc: "\<And>s a f w. P w \<Longrightarrow> P (snd (get_cached_access_token b s a f w))"
    and gr: "\<And>a f w. P w \<Longrightarrow> P (snd (get_refresh_tokens b a f w))"
  shows "filter is_exchange (calls (get_token b cl scopes claims tenant_id enable_cae kwargs self)) = []
           \<and> P (world_after (get_token b cl scopes claims tenant_id enable_cae kwargs self))
       \<or> (\<exists>rt w. P w
            \<and> filter is_exchange (calls (get_token b cl scopes claims tenant_id enable_cae kwargs self))
                = [Obtain_token_by_refresh_token scopes rt claims tenant_id kwargs
                     (outcome (get_token b cl scopes claims tenant_id enable_cae kwargs self))]
            \<and> outcome (get_token b cl scopes claims tenant_id enable_cae kwargs self)
                = fst (obtain_token_by_refresh_token cl scopes rt claims tenant_id kwargs w)
            \<and> world_after (get_token b cl scopes claims tenant_id enable_cae kwargs self)
                = snd (obtain_token_by_refresh_token cl scopes rt claims tenant_id kwargs w))"
proof (cases "scopes = []")
  case True
  with P show ?thesis
    by (simp add: get_token_def calls_def world_after_def)
next
  case False
  note sc = this
  define st1 where "st1 = (if \<not> self_client_initialized self
            then invoke Initialize_client (initialize_client b) (self, [])
            else (Inr (), self, []))"
  obtain r1 w1 l1 where s1: "st1 = (r1, w1, l1)"
    by (cases st1)
  have P1: "P w1" and l1: "filter is_exchange l1 = []"
    using s1 P ic [OF P]
    by (auto simp: st1_def invoke_def split: if_splits prod.splits)
  show ?thesis
  proof (cases r1)
    case (Inl e)
    with s1 sc have "get_token b cl scopes claims tenant_id enable_cae kwargs self = (Inl e, w1, l1)"
      unfolding get_token_def st1_def [symmetric] by simp
    with P1 l1 show ?thesis
      by (simp add: calls_def world_after_def)
  next
    case (Inr x)
    note r1 = this
    define st2 where "st2 = (if (if enable_cae then self_cae_cache w1 else self_cache w1) = None
                  then invoke (Initialize_cache enable_cae) (initialize_cache b enable_cae) (w1, l1)
                  else (Inr (if enable_cae then self_cae_cache w1 else self_cache w1), w1, l1))"
    obtain r2 w2 l2 where s2: "st2 = (r2, w2, l2)"
      by (cases st2)
    have P2: "P w2" and l2: "filter is_exchange l2 = []"
      using s2 P1 l1 lc [OF P1, of enable_cae]
      by (auto simp: st2_def invoke_def split: if_splits prod.splits)
    have G: "get_token b cl scopes claims tenant_id enable_cae kwargs self = (case st2 of
              (Inl e, st2) \<Rightarrow> (Inl e, st2)
            | (Inr None, st2) \<Rightarrow>
                (Inl (CredentialUnavailableError ''Shared token cache unavailable''), st2)
            | (Inr (Some _), st2) \<Rightarrow> from_account b cl scopes claims tenant_id enable_cae kwargs st2)"
      using sc s1 r1 unfolding get_token_def st1_def [symmetric] st2_def from_account_def
      by (simp add: Let_def)
    show ?thesis
    proof (cases r2)
      case (Inl e)
      with s2 G P2 l2 show ?thesis
        by (simp add: calls_def world_after_def)
    next
      case (Inr found)
      note r2 = this
      show ?thesis
      proof (cases found)
        case None
        with s2 r2 G P2 l2 show ?thesis
          by (simp add: calls_def world_after_def)
      next
        case (Some tc)
        with s2 r2 G have eq: "get_token b cl scopes claims tenant_id enable_cae kwargs self
            = from_account b cl scopes claims tenant_id enable_cae kwargs (w2, l2)"
          by simp
        from from_account_frame [of P "(w2, l2)" b cl scopes claims tenant_id enable_cae kwargs]
          P2 l2 ga gc gr
        have "filter is_exchange (calls (from_account b cl scopes claims tenant_id enable_cae kwargs (w2, l2))) = []
           \<and> P (world_after (from_account b cl scopes claims tenant_id enable_cae kwargs (w2, l2)))
         \<or> (\<exists>rt w. P w
            \<and> filter is_exchange (calls (from_account b cl scopes claims tenant_id enable_cae kwargs (w2, l2)))
                = [Obtain_token_by_refresh_token scopes rt claims tenant_id kwargs
                     (outcome (from_account b cl scopes claims tenant_id enable_cae kwargs (w2, l2)))]
            \<and> from_account b cl scopes claims tenant_id enable_cae kwargs (w2, l2)
                = (fst (obtain_token_by_refresh_token cl scopes rt claims tenant_id kwargs w),
                   snd (obtain_token_by_refresh_token cl scopes rt claims tenant_id kwargs w),
                   calls (from_account b cl scopes claims tenant_id enable_cae kwargs (w2, l2))))"
          by simp
        then show ?thesis
        proof
          assume "filter is_exchange (calls (from_account b cl scopes claims tenant_id enable_cae kwargs (w2, l2))) = []
           \<and> P (world_after (from_account b cl scopes claims tenant_id enable_cae kwargs (w2, l2)))"
          with eq show ?thesis by simp
        next
          assume "\<exists>rt w. P w
            \<and> filter is_exchange (calls (from_account b cl scopes claims tenant_id enable_cae kwargs (w2, l2)))
                = [Obtain_token_by_refresh_token scopes rt claims tenant_id kwargs
                     (outcome (from_account b cl scopes claims tenant_id enable_cae kwargs (w2, l2)))]
            \<and> from_account b cl scopes claims tenant_id enable_cae kwargs (w2, l2)
                = (fst (obtain_token_by_refresh_token cl scopes rt claims tenant_id kwargs w),
                   snd (obtain_token_by_refresh_token cl scopes rt claims tenant_id kwargs w),
                   calls (from_account b cl scopes claims tenant_id enable_cae kwargs (w2, l2)))"
          then obtain rt w where w: "P w"
            and f: "filter is_exchange (calls (from_account b cl scopes claims tenant_id enable_cae kwargs (w2, l2)))
                = [Obtain_token_by_refresh_token scopes rt claims tenant_id kwargs
                     (outcome (from_account b cl scopes claims tenant_id enable_cae kwargs (w2, l2)))]"
            and r: "from_account b cl scopes claims tenant_id enable_cae kwargs (w2, l2)
                = (fst (obtain_token_by_refresh_token cl scopes rt claims tenant_id kwargs w),
                   snd (obtain_token_by_refresh_token cl scopes rt claims tenant_id kwargs w),
                   calls (from_account b cl scopes claims tenant_id enable_cae kwargs (w2, l2)))"
            by blast
          from r have "outcome (from_account b cl scopes claims tenant_id enable_cae kwargs (w2, l2))
                = fst (obtain_token_by_refresh_token cl scopes rt claims tenant_id kwargs w)"
            and "world_after (from_account b cl scopes claims tenant_id enable_cae kwargs (w2, l2))
                = snd (obtain_token_by_refresh_token cl scopes rt claims tenant_id kwargs w)"
            unfolding outcome_def world_after_def by (metis fst_conv, metis fst_conv snd_conv)
          with w f eq show ?thesis by auto
        qed
      qed
    qed
  qed
qed

theorem get_token_writes_nothing_itself_witness:
  "filter is_exchange (calls (get_token (spec_base 300) caching_client
       [''https://service/.default''] None None False []
       ((example_world (Some example_cache) 1000)\<lparr>self_cache := Some example_cache\<rparr>))) = []
   \<and> self_cache (world_after (get_token (spec_base 300) caching_client
       [''https://service/.default''] None None False []
       ((example_world (Some example_cache) 1000)\<lparr>self_cache := Some example_cache\<rparr>)))
      = Some example_cache
   \<and> store_std (world_after (get_token (spec_base 300) caching_client
       [''https://service/.default''] None None False []
       ((example_world (Some example_cache) 1000)\<lparr>self_cache := Some example_cache\<rparr>)))
      = Some example_cache"
proof -
  let ?P = "\<lambda>w. self_cache w = Some example_cache \<and> store_std w = Some example_cache"
  have P: "?P ((example_world (Some example_cache) 1000)\<lparr>self_cache := Some example_cache\<rparr>)"
    by (simp add: example_world_def)
  have ic: "\<And>w. ?P w \<Longrightarrow> ?P (snd (initialize_client (spec_base 300) w))"
    by (simp add: spec_base_def initialize_client_spec_def)
  have lc: "\<And>f w. ?P w \<Longrightarrow> ?P (snd (initialize_cache (spec_base 300) f w))"
    by (simp add: spec_base_def initialize_cache_spec_def selected_cache_def split: option.splits)
  have ga: "\<And>u t f w. ?P w \<Longrightarrow> ?P (snd (get_account (spec_base 300) u t f w))"
    by (simp add: spec_base_def get_account_spec_def)
  have gc: "\<And>s a f w. ?P w \<Longrightarrow> ?P (snd (get_cached_access_token (spec_base 300) s a f w))"
    by (simp add: spec_base_def get_cached_access_token_spec_def)
  have gr: "\<And>a f w. ?P w \<Longrightarrow> ?P (snd (get_refresh_tokens (spec_base 300) a f w))"
    by (simp add: spec_base_def get_refresh_tokens_spec_def)
  show ?thesis
    using get_token_writes_nothing_itself [of ?P _ "spec_base 300", OF P ic lc ga gc gr,
        of caching_client "[''https://service/.default'']" None None False "[]"]
    by (simp add: example_defs Let_def)
qed

text \<open>
  The claim as it stands fails on the exchange path: with the client that stores the token it
  obtains, a call that finds only an expired token returns the new token, and the standard
  cache in memory is no longer what it was before the call.
\<close>

theorem cache_written_by_exchange_counterexample:
  "outcome (get_token (spec_base 300) caching_client
       [''https://service/.default''] None None False []
       ((example_world (Some example_cache) 6000)\<lparr>self_cache := Some example_cache\<rparr>))
     = Inr (AccessToken ''issued'' 9000)
   \<and> self_cache (world_after (get_token (spec_base 300) caching_client
       [''https://service/.default''] None None False []
       ((example_world (Some example_cache) 6000)\<lparr>self_cache := Some example_cache\<rparr>)))
     \<noteq> self_cache ((example_world (Some example_cache) 6000)\<lparr>self_cache := Some example_cache\<rparr>)"
  by (simp add: example_defs caching_client_def Let_def)

text \<open>
  Claim C10. Every exchange call in the log of the public get_token carries the tenant_id the
  caller gave, together with the caller's scopes, claims and keyword arguments, and the public
  get_token ends with what that exchange returned: the argument is passed on unchanged through
  the internal credential, although the docstring of the public method says it is not used.
  The tenant_id can therefore change the result: there are a state, an exchange and two tenant
  ids for which the public get_token gives different outcomes.
\<close>

theorem tenant_id_forwarded:
  assumes "Obtain_token_by_refresh_token sc rt c t kw r
             \<in> set (calls (SharedTokenCacheCredential_get_token credential silent b cl scopes
                  claims tenant_id enable_cae kwargs self))"
  shows "t = tenant_id \<and> sc = scopes \<and> c = claims \<and> kw = kwargs
       \<and> outcome (SharedTokenCacheCredential_get_token credential silent b cl scopes
            claims tenant_id enable_cae kwargs self) = r
       \<and> (\<exists>b' cl' scopes' claims' t1 t2 flag kwargs' self'.
            outcome (SharedTokenCacheCredential_get_token Internal_SharedTokenCacheCredential silent
               b' cl' scopes' claims' t1 flag kwargs' self')
            \<noteq> outcome (SharedTokenCacheCredential_get_token Internal_SharedTokenCacheCredential silent
               b' cl' scopes' claims' t2 flag kwargs' self'))"
proof -
  have "outcome (SharedTokenCacheCredential_get_token Internal_SharedTokenCacheCredential silent
          (spec_base 300) (spec_client example_exchange) [''https://service/.default''] None
          (Some ''fabrikam'') False [] (example_world (Some example_cache) 6000))
      \<noteq> outcome (SharedTokenCacheCredential_get_token Internal_SharedTokenCacheCredential silent
          (spec_base 300) (spec_client example_exchange) [''https://service/.default''] None
          (Some ''contoso'') False [] (example_world (Some example_cache) 6000))"
    by (simp add: example_defs)
  then have influence: "\<exists>b' cl' scopes' claims' t1 t2 flag kwargs' self'.
            outcome (SharedTokenCacheCredential_get_token Internal_SharedTokenCacheCredential silent
               b' cl' scopes' claims' t1 flag kwargs' self')
            \<noteq> outcome (SharedTokenCacheCredential_get_token Internal_SharedTokenCacheCredential silent
               b' cl' scopes' claims' t2 flag kwargs' self')"
    by blast
  show ?thesis
  proof (cases credential)
    case SilentAuthenticationCredential
    with assms show ?thesis
      by (simp add: SharedTokenCacheCredential_get_token_def invoke_def calls_def
            split: prod.splits)
  next
    case Internal_SharedTokenCacheCredential
    with assms have "Obtain_token_by_refresh_token sc rt c t kw r
        \<in> set (calls (get_token b cl scopes claims tenant_id enable_cae kwargs self))"
      by (simp add: SharedTokenCacheCredential_get_token_def)
    then have "t = tenant_id \<and> sc = scopes \<and> c = claims \<and> kw = kwargs
        \<and> outcome (get_token b cl scopes claims tenant_id enable_cae kwargs self) = r"
      by (cases rule: get_token_paths [of scopes b cl claims tenant_id enable_cae kwargs self])
         (simp_all add: calls_def outcome_def setup_not_member)
    with Internal_SharedTokenCacheCredential influence show ?thesis
      by (simp add: SharedTokenCacheCredential_get_token_def)
  qed
qed

theorem tenant_id_forwarded_witness:
  "new_credential [] = Internal_SharedTokenCacheCredential
   \<and> Obtain_token_by_refresh_token [''https://service/.default''] ''refresh-1'' None
       (Some ''fabrikam'') [] (Inr (AccessToken ''issued-for-fabrikam'' 9000))
     \<in> set (calls (SharedTokenCacheCredential_get_token (new_credential [])
          (\<lambda>scopes claims tenant_id enable_cae kwargs w. (Inl (CredentialUnavailableError []), w))
          (spec_base 300) (spec_client example_exchange)
          [''https://service/.default''] None (Some ''fabrikam'') False []
          (example_world (Some example_cache) 6000)))
   \<and> outcome (SharedTokenCacheCredential_get_token (new_credential [])
          (\<lambda>scopes claims tenant_id enable_cae kwargs w. (Inl (CredentialUnavailableError []), w))
          (spec_base 300) (spec_client example_exchange)
          [''https://service/.default''] None (Some ''fabrikam'') False []
          (example_world (Some example_cache) 6000))
       = Inr (AccessToken ''issued-for-fabrikam'' 9000)"
  using tenant_id_forwarded [where sc = "[''https://service/.default'']"
      and rt = "''refresh-1''" and c = None and t = "Some ''fabrikam''" and kw = "[]"
      and r = "Inr (AccessToken ''issued-for-fabrikam'' 9000)"
      and credential = "new_credential []"
      and silent = "\<lambda>scopes claims tenant_id enable_cae kwargs w.
                      (Inl (CredentialUnavailableError []), w)"
      and b = "spec_base 300" and cl = "spec_client example_exchange"
      and scopes = "[''https://service/.default'']" and claims = None
      and tenant_id = "Some ''fabrikam''" and enable_cae = False and kwargs = "[]"
      and self = "example_world (Some example_cache) 6000"]
  by (simp add: example_defs)

end
